theory Spec2Isabelle
  imports Main
begin

section \<open>JavaScript values read by the screens\<close>

text \<open>
  An optional string property of a JavaScript object, such as
  \<^verbatim>\<open>email_confirmed_at?: string | null\<close> or the \<^verbatim>\<open>message\<close> of a caught error
  (typed \<^verbatim>\<open>any\<close>): the property is missing (\<^verbatim>\<open>undefined\<close>), is \<^verbatim>\<open>null\<close>, or holds
  a string.
\<close>

datatype js_str = Undefined | Null | Str string

text \<open>JavaScript truthiness: \<^verbatim>\<open>undefined\<close>, \<^verbatim>\<open>null\<close> and the empty string are falsy.\<close>

fun truthy :: "js_str \<Rightarrow> bool" where
  "truthy Undefined = False"
| "truthy Null = False"
| "truthy (Str s) = (s \<noteq> [])"

text \<open>The strict comparison \<^verbatim>\<open>v !== null\<close>.\<close>

fun not_null :: "js_str \<Rightarrow> bool" where
  "not_null Null = False"
| "not_null _ = True"

text \<open>The text a truthy value contributes to \<^verbatim>\<open>a || b || 'default'\<close>.\<close>

fun str_of :: "js_str \<Rightarrow> string" where
  "str_of (Str s) = s"
| "str_of _ = []"

section \<open>Root layout: the route guard\<close>

record auth_user =
  user_id :: string
  user_email :: string
  email_confirmed_at :: js_str

text \<open>
  The session of \<^verbatim>\<open>useSupabaseAuth()\<close>. The layout tests \<^verbatim>\<open>session.user &&\<close> and
  reads \<^verbatim>\<open>session.user?.email_confirmed_at\<close>, so the user is optional here.
\<close>

record auth_session =
  user :: "auth_user option"

text \<open>
  What \<^verbatim>\<open>RootLayout\<close> returns: the loading view, the setup view, or the stack with
  the \<^verbatim>\<open>redirect\<close> props of its \<^verbatim>\<open>(tabs)\<close> and \<^verbatim>\<open>auth\<close> screens.
\<close>

datatype layout_view =
  LoadingView
| SetupView
| StackView (tabs_redirect: bool) (auth_redirect: bool)

text \<open>
  \<^verbatim>\<open>!process.env.EXPO_PUBLIC_SUPABASE_URL || !process.env.EXPO_PUBLIC_SUPABASE_ANON_KEY\<close>
\<close>

definition missingEnvVars :: "js_str \<Rightarrow> js_str \<Rightarrow> bool" where
  "missingEnvVars url anon_key = (\<not> truthy url \<or> \<not> truthy anon_key)"

text \<open>
  \<^verbatim>\<open>redirect={!session || (session.user && !session.user.email_confirmed_at)}\<close>:
  the truthiness of the expression (when \<^verbatim>\<open>session.user\<close> is undefined the
  conjunction is \<^verbatim>\<open>undefined\<close>, which is falsy).
\<close>

definition tabsRedirect :: "auth_session option \<Rightarrow> bool" where
  "tabsRedirect session =
     (case session of
        None \<Rightarrow> True
      | Some s \<Rightarrow>
          (case user s of
             None \<Rightarrow> False
           | Some u \<Rightarrow> \<not> truthy (email_confirmed_at u)))"

text \<open>
  \<^verbatim>\<open>redirect={!!session && session.user?.email_confirmed_at !== null}\<close>:
  the optional chain yields \<^verbatim>\<open>undefined\<close> when there is no user.
\<close>

definition authRedirect :: "auth_session option \<Rightarrow> bool" where
  "authRedirect session =
     (case session of
        None \<Rightarrow> False
      | Some s \<Rightarrow>
          not_null (case user s of None \<Rightarrow> Undefined | Some u \<Rightarrow> email_confirmed_at u))"

definition RootLayout :: "bool \<Rightarrow> js_str \<Rightarrow> js_str \<Rightarrow> auth_session option \<Rightarrow> layout_view" where
  "RootLayout loading url anon_key session =
     (if loading then LoadingView
      else if missingEnvVars url anon_key then SetupView
      else StackView (tabsRedirect session) (authRedirect session))"

text \<open>
  The four screen states of the guard, read off the returned view: a stack screen is
  reachable exactly when its \<^verbatim>\<open>redirect\<close> prop is false.
\<close>

datatype screen_state = Loading | SetupRequired | AuthArea | MainArea

fun active_states :: "layout_view \<Rightarrow> screen_state list" where
  "active_states LoadingView = [Loading]"
| "active_states SetupView = [SetupRequired]"
| "active_states (StackView tabs_r auth_r) =
     (if tabs_r then [] else [MainArea]) @ (if auth_r then [] else [AuthArea])"

text \<open>A signed-in user whose record has no \<^verbatim>\<open>email_confirmed_at\<close> property at all.\<close>

definition session_without_timestamp :: "auth_session option" where
  "session_without_timestamp =
     Some \<lparr>user = Some \<lparr>user_id = ''u1'', user_email = ''a@mail.utdt.edu'',
                         email_confirmed_at = Undefined\<rparr>\<rparr>"

section \<open>Errors, external calls and effects\<close>

text \<open>
  An error object as the handlers read it (\<^verbatim>\<open>err: any\<close>): they look at
  \<^verbatim>\<open>err.message\<close> and \<^verbatim>\<open>err.originalError\<close> only.
\<close>

record js_error =
  message :: js_str
  originalError :: js_str

text \<open>An awaited external call either resolves to a value or rejects (throws).\<close>

datatype 'a outcome = Resolves 'a | Rejects js_error

text \<open>
  For a call that resolves to \<^verbatim>\<open>{ error }\<close> followed by
  \<^verbatim>\<open>if (error) throw error\<close>: the error that reaches the \<^verbatim>\<open>catch\<close> block, if any.
\<close>

fun thrown :: "js_error option outcome \<Rightarrow> js_error option" where
  "thrown (Resolves e) = e"
| "thrown (Rejects err) = Some err"

text \<open>
  What a handler does besides updating its screen's state, in the order it happens:
  calls into the auth provider and the database, alerts (title, message, and for each
  button its label and the route it replaces the screen with when pressed), focus
  moves and navigation. Console logging is left out.
\<close>

datatype effect =
  VerifyOTP string string
| ResendVerificationEmail string
| Alert string string "(string \<times> string) list"
| FocusInput nat
| GetUser
| DeleteProfile string
| DeleteUser string
| SignOut
| RouterReplace string

section \<open>Email verification screen\<close>

text \<open>The \<^verbatim>\<open>useState\<close> cells of \<^verbatim>\<open>VerifyEmailScreen\<close> and its \<^verbatim>\<open>email\<close> parameter.\<close>

record verify_state =
  email :: string
  verificationCode :: "string list"
  error :: "string option"
  isLoading :: bool
  resendCooldown :: int

text \<open>What \<^verbatim>\<open>verifyOTP\<close> resolves to: \<^verbatim>\<open>{ error, data }\<close>, with \<^verbatim>\<open>data?.session\<close>.\<close>

record otp_data =
  data_session :: "auth_session option"

record otp_result =
  otp_error :: "js_error option"
  otp_data :: "otp_data option"

text \<open>
  \<^verbatim>\<open>newCode[index] = text\<close>. Within the array this replaces the cell. Beyond its end
  JavaScript extends the array and leaves holes, which every reader in this screen
  (\<^verbatim>\<open>join('')\<close>, \<^verbatim>\<open>!verificationCode[index]\<close>, the \<^verbatim>\<open>value\<close> prop) treats as the
  empty string.
\<close>

definition array_set :: "string list \<Rightarrow> nat \<Rightarrow> string \<Rightarrow> string list" where
  "array_set xs i v =
     (if i < length xs then xs[i := v]
      else xs @ replicate (i - length xs) [] @ [v])"

definition handleCodeChange :: "string \<Rightarrow> nat \<Rightarrow> verify_state \<Rightarrow> verify_state \<times> effect list" where
  "handleCodeChange text index st =
     (st\<lparr>verificationCode := array_set (verificationCode st) index text\<rparr>,
      if length text = 1 \<and> index < 5 then [FocusInput (index + 1)] else [])"

text \<open>\<^verbatim>\<open>text.replace(/[^0-9]/g, '')\<close>\<close>

definition is_digit :: "char \<Rightarrow> bool" where
  "is_digit c = (c \<in> set ''0123456789'')"

text \<open>
  \<^verbatim>\<open>onChangeText={text => handleCodeChange(text.replace(/[^0-9]/g, ''), index)}\<close>
\<close>

definition codeInput_onChangeText :: "string \<Rightarrow> nat \<Rightarrow> verify_state \<Rightarrow> verify_state \<times> effect list" where
  "codeInput_onChangeText text index st = handleCodeChange (filter is_digit text) index st"

text \<open>
  The cells as the screen keeps them: each input has \<^verbatim>\<open>maxLength={1}\<close>, so a cell is
  empty or holds one character.
\<close>

definition single_chars :: "string list \<Rightarrow> bool" where
  "single_chars code = list_all (\<lambda>c. length c \<le> 1) code"

definition filled :: "string list \<Rightarrow> nat" where
  "filled code = length (filter (\<lambda>c. c \<noteq> []) code)"

text \<open>
  \<^verbatim>\<open>setError(err.message || err.originalError || 'Failed to verify your email. Please try again.')\<close>
\<close>

definition verify_error_text :: "js_error \<Rightarrow> string" where
  "verify_error_text err =
     (if truthy (message err) then str_of (message err)
      else if truthy (originalError err) then str_of (originalError err)
      else ''Failed to verify your email. Please try again.'')"

text \<open>The \<^verbatim>\<open>catch\<close> and \<^verbatim>\<open>finally\<close> blocks of \<^verbatim>\<open>handleVerify\<close>.\<close>

definition verify_catch :: "js_error \<Rightarrow> verify_state \<Rightarrow> verify_state" where
  "verify_catch err st = st\<lparr>error := Some (verify_error_text err), isLoading := False\<rparr>"

definition verified_alert_app :: effect where
  "verified_alert_app =
     Alert ''Email Verified''
       ''Your email has been successfully verified. You will now be redirected to the app.''
       [(''Continue'', ''/(tabs)'')]"

definition verified_alert_sign_in :: effect where
  "verified_alert_sign_in =
     Alert ''Email Verified''
       ''Your email has been successfully verified. Please sign in to continue.''
       [(''Sign In'', ''/auth/sign-in'')]"

text \<open>\<^verbatim>\<open>data?.session\<close> is truthy.\<close>

definition has_session :: "otp_result \<Rightarrow> bool" where
  "has_session r =
     (case otp_data r of None \<Rightarrow> False | Some d \<Rightarrow> data_session d \<noteq> None)"

definition handleVerify ::
  "(string \<Rightarrow> string \<Rightarrow> otp_result outcome) \<Rightarrow> verify_state \<Rightarrow> verify_state \<times> effect list" where
  "handleVerify verifyOTP st =
     (let code = concat (verificationCode st) in
      if length code \<noteq> 6
      then (st\<lparr>error := Some ''Please enter all 6 digits of your verification code''\<rparr>, [])
      else
        let st1 = st\<lparr>isLoading := True, error := None\<rparr>;
            call = VerifyOTP (email st) code
        in (case verifyOTP (email st) code of
              Rejects err \<Rightarrow> (verify_catch err st1, [call])
            | Resolves r \<Rightarrow>
                (case otp_error r of
                   Some err \<Rightarrow> (verify_catch err st1, [call])
                 | None \<Rightarrow>
                     if has_session r
                     then (st1\<lparr>isLoading := False\<rparr>, [call, verified_alert_app])
                     else (st1\<lparr>isLoading := False\<rparr>, [call, verified_alert_sign_in]))))"

text \<open>\<^verbatim>\<open>setError(err.message || 'Failed to resend verification code')\<close>\<close>

definition resend_error_text :: "js_error \<Rightarrow> string" where
  "resend_error_text err =
     (if truthy (message err) then str_of (message err)
      else ''Failed to resend verification code'')"

definition resend_catch :: "js_error \<Rightarrow> verify_state \<Rightarrow> verify_state" where
  "resend_catch err st = st\<lparr>error := Some (resend_error_text err), isLoading := False\<rparr>"

definition code_sent_alert :: effect where
  "code_sent_alert =
     Alert ''Code Sent'' ''A new verification code has been sent to your email.'' []"

definition handleResendCode ::
  "(string \<Rightarrow> js_error option outcome) \<Rightarrow> verify_state \<Rightarrow> verify_state \<times> effect list" where
  "handleResendCode resendVerificationEmail st =
     (if resendCooldown st > 0 then (st, [])
      else
        let st1 = st\<lparr>isLoading := True, error := None\<rparr>;
            call = ResendVerificationEmail (email st)
        in (case thrown (resendVerificationEmail (email st)) of
              Some err \<Rightarrow> (resend_catch err st1, [call])
            | None \<Rightarrow> (st1\<lparr>resendCooldown := 60, isLoading := False\<rparr>, [call, code_sent_alert])))"

text \<open>
  The resend control:
  \<^verbatim>\<open><Pressable onPress={handleResendCode} disabled={resendCooldown > 0 || isLoading}>\<close>.
  A press on a disabled control does nothing.
\<close>

definition resendButton_onPress ::
  "(string \<Rightarrow> js_error option outcome) \<Rightarrow> verify_state \<Rightarrow> verify_state \<times> effect list" where
  "resendButton_onPress resendVerificationEmail st =
     (if resendCooldown st > 0 \<or> isLoading st then (st, [])
      else handleResendCode resendVerificationEmail st)"

text \<open>
  The cooldown effect, once its one-second timeout has fired:
  \<^verbatim>\<open>if (resendCooldown > 0) setTimeout(() => setResendCooldown(resendCooldown - 1), 1000)\<close>.
\<close>

definition cooldownTimer :: "verify_state \<Rightarrow> verify_state" where
  "cooldownTimer st =
     (if resendCooldown st > 0 then st\<lparr>resendCooldown := resendCooldown st - 1\<rparr> else st)"

text \<open>The screen as it mounts for an address.\<close>

definition initial_verify_state :: "string \<Rightarrow> verify_state" where
  "initial_verify_state addr =
     \<lparr>email = addr, verificationCode = [[], [], [], [], [], []], error = None,
      isLoading = False, resendCooldown = 0\<rparr>"

text \<open>The screen for \<open>a@mail.utdt.edu\<close> with the given cells, idle, no cooldown running.\<close>

definition screen_with_code :: "string list \<Rightarrow> verify_state" where
  "screen_with_code code =
     (initial_verify_state ''a@mail.utdt.edu'')\<lparr>verificationCode := code\<rparr>"

section \<open>Settings screen: account deletion\<close>

record settings_state =
  isSigningOut :: bool
  isDeletingAccount :: bool

text \<open>
  How the backend answers the four awaited calls of \<^verbatim>\<open>confirmDeleteAccount\<close>:
  \<^verbatim>\<open>supabase.auth.getUser()\<close> (its \<^verbatim>\<open>data.user\<close>),
  \<^verbatim>\<open>supabase.from('profiles').delete().eq('id', id)\<close>,
  \<^verbatim>\<open>supabase.auth.admin.deleteUser(id)\<close> and \<^verbatim>\<open>supabase.auth.signOut()\<close>
  (the \<^verbatim>\<open>error\<close> each of the last three resolves to).
\<close>

record backend =
  getUser :: "auth_user option outcome"
  deleteProfile :: "string \<Rightarrow> js_error option outcome"
  deleteUser :: "string \<Rightarrow> js_error option outcome"
  signOut :: "js_error option outcome"

text \<open>\<^verbatim>\<open>new Error('User not authenticated')\<close>\<close>

definition not_authenticated :: js_error where
  "not_authenticated = \<lparr>message = Str ''User not authenticated'', originalError = Undefined\<rparr>"

text \<open>
  The \<^verbatim>\<open>try\<close> block of \<^verbatim>\<open>confirmDeleteAccount\<close>: the effects it performs and the
  error it throws, if any. The value \<^verbatim>\<open>signOut()\<close> resolves to is not looked at; only
  a rejection of the call leaves the block.
\<close>

definition deleteAccount_try :: "backend \<Rightarrow> effect list \<times> js_error option" where
  "deleteAccount_try b =
     (case getUser b of
        Rejects err \<Rightarrow> ([GetUser], Some err)
      | Resolves None \<Rightarrow> ([GetUser], Some not_authenticated)
      | Resolves (Some u) \<Rightarrow>
          (case thrown (deleteProfile b (user_id u)) of
             Some err \<Rightarrow> ([GetUser, DeleteProfile (user_id u)], Some err)
           | None \<Rightarrow>
               (case thrown (deleteUser b (user_id u)) of
                  Some err \<Rightarrow>
                    ([GetUser, DeleteProfile (user_id u), DeleteUser (user_id u)], Some err)
                | None \<Rightarrow>
                    (case signOut b of
                       Rejects err \<Rightarrow>
                         ([GetUser, DeleteProfile (user_id u), DeleteUser (user_id u), SignOut],
                          Some err)
                     | Resolves _ \<Rightarrow>
                         ([GetUser, DeleteProfile (user_id u), DeleteUser (user_id u), SignOut,
                           RouterReplace ''/auth/sign-in''], None)))))"

text \<open>
  The alert of the \<^verbatim>\<open>catch\<close> block: the fixed text, followed by a blank line and
  \<^verbatim>\<open>Error: <message>\<close> when the error has a message.
\<close>

definition delete_failed_alert :: "js_error \<Rightarrow> effect" where
  "delete_failed_alert err =
     Alert ''Error''
       (''Failed to delete account. Please try again or contact support.'' @
        (if truthy (message err)
         then [CHR 0x0A, CHR 0x0A] @ ''Error: '' @ str_of (message err)
         else []))
       []"

definition confirmDeleteAccount :: "backend \<Rightarrow> settings_state \<Rightarrow> settings_state \<times> effect list" where
  "confirmDeleteAccount b st =
     (case deleteAccount_try b of
        (effects, None) \<Rightarrow> (st\<lparr>isDeletingAccount := False\<rparr>, effects)
      | (effects, Some err) \<Rightarrow>
          (st\<lparr>isDeletingAccount := False\<rparr>, effects @ [delete_failed_alert err]))"

text \<open>The calls that change the account, the session or the screen.\<close>

fun destructive :: "effect \<Rightarrow> bool" where
  "destructive (DeleteProfile _) = True"
| "destructive (DeleteUser _) = True"
| "destructive SignOut = True"
| "destructive (RouterReplace _) = True"
| "destructive _ = False"

text \<open>A backend on which every step succeeds for the user \<open>u1\<close>, except where changed.\<close>

definition sample_user :: auth_user where
  "sample_user =
     \<lparr>user_id = ''u1'', user_email = ''a@mail.utdt.edu'',
      email_confirmed_at = Str ''2024-01-01T00:00:00Z''\<rparr>"

definition working_backend :: backend where
  "working_backend =
     \<lparr>getUser = Resolves (Some sample_user),
      deleteProfile = (\<lambda>_. Resolves None),
      deleteUser = (\<lambda>_. Resolves None),
      signOut = Resolves None\<rparr>"

definition network_error :: js_error where
  "network_error = \<lparr>message = Str ''Network request failed'', originalError = Undefined\<rparr>"

section \<open>Sample inputs\<close>

text \<open>An error object whose message is the empty string, as \<^verbatim>\<open>new Error()\<close> has.\<close>

definition empty_message_error :: js_error where
  "empty_message_error = \<lparr>message = Str [], originalError = Undefined\<rparr>"

text \<open>A successful verification that also signs the user in.\<close>

definition session_result :: otp_result where
  "session_result =
     \<lparr>otp_error = None, otp_data = Some \<lparr>data_session = Some \<lparr>user = Some sample_user\<rparr>\<rparr>\<rparr>"

text \<open>A successful verification without a session, and a rejected code.\<close>

definition no_session_result :: otp_result where
  "no_session_result = \<lparr>otp_error = None, otp_data = Some \<lparr>data_session = None\<rparr>\<rparr>"

definition expired_result :: otp_result where
  "expired_result =
     \<lparr>otp_error = Some \<lparr>message = Str ''Token has expired or is invalid'',
                          originalError = Undefined\<rparr>,
      otp_data = None\<rparr>"

section \<open>Route guard: results\<close>

lemma active_states_at_most_one:
  "length (active_states (RootLayout loading url anon_key session)) \<le> 1"
  by (cases session; cases "user (the session)"; cases "email_confirmed_at (the (user (the session)))")
     (simp_all add: RootLayout_def tabsRedirect_def authRedirect_def)

lemma null_timestamp_routes_to_auth:
  "user s = Some u \<Longrightarrow> email_confirmed_at u = Null \<Longrightarrow> truthy url \<Longrightarrow> truthy anon_key \<Longrightarrow>
   active_states (RootLayout False url anon_key (Some s)) = [AuthArea]"
  by (simp add: RootLayout_def missingEnvVars_def tabsRedirect_def authRedirect_def)

text \<open>
  C1. A session whose user has no confirmation timestamp property should be routed to
  the auth area, like an unconfirmed user. At such a session (loading finished, both
  connection parameters present) the layout redirects away from the main area and also
  away from the auth area, because \<^verbatim>\<open>undefined !== null\<close> holds: the auth area is not
  among the active states.
\<close>

theorem RootLayout_absent_timestamp_redirects_auth:
  "RootLayout False (Str ''https://x.supabase.co'') (Str ''key'') session_without_timestamp
     = StackView True True
   \<and> AuthArea \<notin> set (active_states
        (RootLayout False (Str ''https://x.supabase.co'') (Str ''key'') session_without_timestamp))"
  by (simp add: RootLayout_def missingEnvVars_def tabsRedirect_def authRedirect_def
      session_without_timestamp_def)

text \<open>
  C2. The guard should activate exactly one of the four screen states for every input.
  At the session without a timestamp property no screen state is active: both stack
  screens are redirected.
\<close>

theorem RootLayout_absent_timestamp_no_active_state:
  "active_states
     (RootLayout False (Str ''https://x.supabase.co'') (Str ''key'') session_without_timestamp)
   = []"
  by (simp add: RootLayout_def missingEnvVars_def tabsRedirect_def authRedirect_def
      session_without_timestamp_def)

section \<open>Verification code entry and submission: results\<close>

text \<open>With at most one character in each cell, the joined code is as long as the number of filled cells.\<close>

lemma length_concat_single_chars:
  "single_chars code \<Longrightarrow> length (concat code) = filled code"
proof (induction code)
  case Nil
  then show ?case by (simp add: filled_def)
next
  case (Cons c cs)
  then have "length c \<le> 1" and "single_chars cs"
    by (simp_all add: single_chars_def)
  with Cons.IH show ?case
    by (cases c) (simp_all add: filled_def)
qed

text \<open>
  The inputs keep the cells at one character at most: with \<^verbatim>\<open>maxLength={1}\<close> the text
  an input reports has at most one character, and filtering removes characters only.
\<close>

lemma single_chars_onChangeText:
  assumes "single_chars (verificationCode st)" and "length raw \<le> 1"
  shows "single_chars (verificationCode (fst (codeInput_onChangeText raw index st)))"
proof -
  have "length (filter is_digit raw) \<le> 1"
    using assms(2) length_filter_le [of is_digit raw] by linarith
  with assms(1) show ?thesis
    by (auto simp: codeInput_onChangeText_def handleCodeChange_def array_set_def
        single_chars_def list_all_iff dest: set_update_subset_insert [THEN subsetD])
qed

text \<open>
  C3. When fewer than six cells of the code are filled (each cell holding at most one
  character), submitting sets the incomplete-code message as the error and does nothing
  else: no effect is performed, so \<^verbatim>\<open>verifyOTP\<close> is not called, and the cells, the
  loading flag and the cooldown are as before.
\<close>

theorem handleVerify_incomplete_code:
  assumes "single_chars (verificationCode st)"
    and "filled (verificationCode st) < 6"
  shows "handleVerify verifyOTP st =
           (st\<lparr>error := Some ''Please enter all 6 digits of your verification code''\<rparr>, [])"
proof -
  from assms have "length (concat (verificationCode st)) \<noteq> 6"
    by (simp add: length_concat_single_chars)
  then show ?thesis
    by (simp add: handleVerify_def Let_def)
qed

theorem handleVerify_incomplete_code_witness:
  "single_chars [''1'', ''2'', ''3'', [], [], []]
   \<and> filled [''1'', ''2'', ''3'', [], [], []] < 6
   \<and> handleVerify (\<lambda>_ _. Resolves \<lparr>otp_error = None, otp_data = None\<rparr>)
        (screen_with_code [''1'', ''2'', ''3'', [], [], []])
      = (\<lparr>email = ''a@mail.utdt.edu'', verificationCode = [''1'', ''2'', ''3'', [], [], []],
          error = Some ''Please enter all 6 digits of your verification code'',
          isLoading = False, resendCooldown = 0\<rparr>, [])"
  using handleVerify_incomplete_code
    [of "screen_with_code [''1'', ''2'', ''3'', [], [], []]"
        "\<lambda>_ _. Resolves \<lparr>otp_error = None, otp_data = None\<rparr>"]
  by (simp add: single_chars_def filled_def screen_with_code_def initial_verify_state_def)

text \<open>
  C4, as stated: when the verify call returns an error, the error shown afterwards is
  the returned error's message. This fails for an error whose message is empty: the
  handler falls back to its fixed text.
\<close>

theorem handleVerify_empty_message_counterexample:
  "error (fst (handleVerify
       (\<lambda>_ _. Resolves \<lparr>otp_error = Some empty_message_error, otp_data = None\<rparr>)
       (screen_with_code [''1'', ''2'', ''3'', ''4'', ''5'', ''6''])))
     = Some ''Failed to verify your email. Please try again.''
   \<and> error (fst (handleVerify
       (\<lambda>_ _. Resolves \<lparr>otp_error = Some empty_message_error, otp_data = None\<rparr>)
       (screen_with_code [''1'', ''2'', ''3'', ''4'', ''5'', ''6''])))
     \<noteq> Some (str_of (message empty_message_error))"
  by (simp add: handleVerify_def verify_catch_def verify_error_text_def Let_def
      empty_message_error_def screen_with_code_def initial_verify_state_def)

text \<open>
  C4, amended. For a complete code whose verify call resolves: without an error and with
  a session, the handler calls \<^verbatim>\<open>verifyOTP\<close> once, shows the "Email Verified" alert
  whose button leads to the main area, and ends idle without an error; without an error
  and without a session it does the same with the alert whose button leads to sign-in;
  with an error it calls \<^verbatim>\<open>verifyOTP\<close> once, shows no alert, ends idle, and the error
  shown is the returned error's message when that is non-empty, otherwise its
  \<^verbatim>\<open>originalError\<close> when that is non-empty, otherwise the fixed text.
\<close>

theorem handleVerify_outcomes:
  assumes "length (concat (verificationCode st)) = 6"
    and "verifyOTP (email st) (concat (verificationCode st)) = Resolves r"
  shows
    "(otp_error r = None \<and> has_session r \<longrightarrow>
        snd (handleVerify verifyOTP st)
          = [VerifyOTP (email st) (concat (verificationCode st)), verified_alert_app]
        \<and> isLoading (fst (handleVerify verifyOTP st)) = False
        \<and> error (fst (handleVerify verifyOTP st)) = None)
     \<and> (otp_error r = None \<and> \<not> has_session r \<longrightarrow>
        snd (handleVerify verifyOTP st)
          = [VerifyOTP (email st) (concat (verificationCode st)), verified_alert_sign_in]
        \<and> isLoading (fst (handleVerify verifyOTP st)) = False
        \<and> error (fst (handleVerify verifyOTP st)) = None)
     \<and> (\<forall>err. otp_error r = Some err \<longrightarrow>
        snd (handleVerify verifyOTP st)
          = [VerifyOTP (email st) (concat (verificationCode st))]
        \<and> isLoading (fst (handleVerify verifyOTP st)) = False
        \<and> error (fst (handleVerify verifyOTP st)) =
            Some (if truthy (message err) then str_of (message err)
                  else if truthy (originalError err) then str_of (originalError err)
                  else ''Failed to verify your email. Please try again.''))"
  using assms
  by (simp add: handleVerify_def verify_catch_def verify_error_text_def Let_def)

theorem handleVerify_outcomes_witness:
  "length (concat (verificationCode (screen_with_code [''1'', ''2'', ''3'', ''4'', ''5'', ''6'']))) = 6
   \<and> otp_error session_result = None \<and> has_session session_result
   \<and> snd (handleVerify (\<lambda>_ _. Resolves session_result)
        (screen_with_code [''1'', ''2'', ''3'', ''4'', ''5'', ''6'']))
      = [VerifyOTP ''a@mail.utdt.edu'' ''123456'',
         Alert ''Email Verified''
           ''Your email has been successfully verified. You will now be redirected to the app.''
           [(''Continue'', ''/(tabs)'')]]
   \<and> otp_error no_session_result = None \<and> \<not> has_session no_session_result
   \<and> snd (handleVerify (\<lambda>_ _. Resolves no_session_result)
        (screen_with_code [''1'', ''2'', ''3'', ''4'', ''5'', ''6'']))
      = [VerifyOTP ''a@mail.utdt.edu'' ''123456'',
         Alert ''Email Verified''
           ''Your email has been successfully verified. Please sign in to continue.''
           [(''Sign In'', ''/auth/sign-in'')]]
   \<and> otp_error expired_result
       = Some \<lparr>message = Str ''Token has expired or is invalid'', originalError = Undefined\<rparr>
   \<and> snd (handleVerify (\<lambda>_ _. Resolves expired_result)
        (screen_with_code [''1'', ''2'', ''3'', ''4'', ''5'', ''6'']))
      = [VerifyOTP ''a@mail.utdt.edu'' ''123456'']
   \<and> error (fst (handleVerify (\<lambda>_ _. Resolves expired_result)
        (screen_with_code [''1'', ''2'', ''3'', ''4'', ''5'', ''6''])))
      = Some ''Token has expired or is invalid''
   \<and> isLoading (fst (handleVerify (\<lambda>_ _. Resolves expired_result)
        (screen_with_code [''1'', ''2'', ''3'', ''4'', ''5'', ''6''])))
      = False"
  using handleVerify_outcomes
    [of "screen_with_code [''1'', ''2'', ''3'', ''4'', ''5'', ''6'']"
        "\<lambda>_ _. Resolves session_result" session_result]
    handleVerify_outcomes
    [of "screen_with_code [''1'', ''2'', ''3'', ''4'', ''5'', ''6'']"
        "\<lambda>_ _. Resolves no_session_result" no_session_result]
    handleVerify_outcomes
    [of "screen_with_code [''1'', ''2'', ''3'', ''4'', ''5'', ''6'']"
        "\<lambda>_ _. Resolves expired_result" expired_result]
  by (simp add: screen_with_code_def initial_verify_state_def session_result_def
      no_session_result_def expired_result_def has_session_def
      verified_alert_app_def verified_alert_sign_in_def)

text \<open>
  C7, as stated: entering a digit at a cell and then clearing that cell gives back the
  array from before the entry, for every starting array. This fails when the cell held
  a digit before: the entry overwrites it and the clearing leaves the cell empty.
\<close>

theorem handleCodeChange_enter_then_clear_counterexample:
  "verificationCode (fst (handleCodeChange [] 0 (fst (handleCodeChange ''7'' 0
      (screen_with_code [''5'', [], [], [], [], []])))))
   = [[], [], [], [], [], []]
   \<and> verificationCode (fst (handleCodeChange [] 0 (fst (handleCodeChange ''7'' 0
      (screen_with_code [''5'', [], [], [], [], []])))))
   \<noteq> verificationCode (screen_with_code [''5'', [], [], [], [], []])"
  by (simp add: handleCodeChange_def array_set_def screen_with_code_def initial_verify_state_def)

text \<open>
  C7, amended. For a six-cell array and a cell index below six, entering any text at the
  cell and then clearing the cell gives the starting array with that cell emptied; so it
  gives back the starting array whenever the cell was empty before the entry.
\<close>

theorem handleCodeChange_enter_then_clear:
  assumes "length (verificationCode st) = 6" and "i < 6"
  shows "verificationCode (fst (handleCodeChange [] i (fst (handleCodeChange d i st))))
           = (verificationCode st)[i := []]
         \<and> (verificationCode st ! i = [] \<longrightarrow>
              verificationCode (fst (handleCodeChange [] i (fst (handleCodeChange d i st))))
                = verificationCode st)"
  using assms by (simp add: handleCodeChange_def array_set_def list_update_same_conv)

theorem handleCodeChange_enter_then_clear_witness:
  "length (verificationCode (screen_with_code [''1'', ''2'', [], [], [], []])) = 6
   \<and> (2::nat) < 6
   \<and> verificationCode (screen_with_code [''1'', ''2'', [], [], [], []]) ! 2 = []
   \<and> verificationCode (fst (handleCodeChange [] 2 (fst (handleCodeChange ''7'' 2
         (screen_with_code [''1'', ''2'', [], [], [], []])))))
       = [''1'', ''2'', [], [], [], []]"
  using handleCodeChange_enter_then_clear
    [of "screen_with_code [''1'', ''2'', [], [], [], []]" 2 "''7''"]
  by (simp add: screen_with_code_def initial_verify_state_def)

text \<open>
  C10. Submitting never changes the cells of the code: not when validation rejects it,
  not when the verify call fails or throws, not when it succeeds.
\<close>

theorem handleVerify_keeps_code:
  "verificationCode (fst (handleVerify verifyOTP st)) = verificationCode st"
  by (simp add: handleVerify_def verify_catch_def Let_def split: outcome.splits option.splits)

section \<open>Resending the code: results\<close>

text \<open>
  C5, as stated: the resend operation does nothing whenever a submit is in flight. The
  handler \<^verbatim>\<open>handleResendCode\<close> tests the cooldown only: called with the loading flag
  set and no cooldown running (as the mount effect can), it calls the provider and starts
  the cooldown.
\<close>

theorem handleResendCode_while_loading_counterexample:
  "isLoading ((screen_with_code [[], [], [], [], [], []])\<lparr>isLoading := True\<rparr>)
   \<and> handleResendCode (\<lambda>_. Resolves None)
        ((screen_with_code [[], [], [], [], [], []])\<lparr>isLoading := True\<rparr>)
     = ((screen_with_code [[], [], [], [], [], []])\<lparr>resendCooldown := 60\<rparr>,
        [ResendVerificationEmail ''a@mail.utdt.edu'', code_sent_alert])
   \<and> snd (handleResendCode (\<lambda>_. Resolves None)
        ((screen_with_code [[], [], [], [], [], []])\<lparr>isLoading := True\<rparr>)) \<noteq> []"
  by (simp add: handleResendCode_def screen_with_code_def initial_verify_state_def Let_def)

text \<open>
  C5, amended. While the cooldown is positive the handler does nothing: no call, state
  unchanged. While the cooldown is positive or the loading flag is set the resend
  control is disabled, and a press on it does nothing: no call, state unchanged.
\<close>

theorem resend_blocked:
  "(resendCooldown st > 0 \<longrightarrow> handleResendCode resend st = (st, []))
   \<and> (resendCooldown st > 0 \<or> isLoading st \<longrightarrow> resendButton_onPress resend st = (st, []))"
  by (simp add: handleResendCode_def resendButton_onPress_def)

theorem resend_blocked_witness:
  "resendCooldown ((screen_with_code [[], [], [], [], [], []])\<lparr>resendCooldown := 42\<rparr>) > 0
   \<and> handleResendCode (\<lambda>_. Resolves None)
        ((screen_with_code [[], [], [], [], [], []])\<lparr>resendCooldown := 42\<rparr>)
      = ((screen_with_code [[], [], [], [], [], []])\<lparr>resendCooldown := 42\<rparr>, [])
   \<and> isLoading ((screen_with_code [[], [], [], [], [], []])\<lparr>isLoading := True\<rparr>)
   \<and> resendButton_onPress (\<lambda>_. Resolves None)
        ((screen_with_code [[], [], [], [], [], []])\<lparr>isLoading := True\<rparr>)
      = ((screen_with_code [[], [], [], [], [], []])\<lparr>isLoading := True\<rparr>, [])"
  using resend_blocked
    [of "(screen_with_code [[], [], [], [], [], []])\<lparr>resendCooldown := 42\<rparr>" "\<lambda>_. Resolves None"]
    resend_blocked
    [of "(screen_with_code [[], [], [], [], [], []])\<lparr>isLoading := True\<rparr>" "\<lambda>_. Resolves None"]
  by (simp add: screen_with_code_def initial_verify_state_def)

text \<open>The cooldown after a number of timer steps, and what the steps leave alone.\<close>

lemma cooldownTimer_funpow:
  "0 \<le> resendCooldown st \<Longrightarrow>
   resendCooldown ((cooldownTimer ^^ n) st) = max 0 (resendCooldown st - int n)"
  by (induction n) (auto simp: cooldownTimer_def)

lemma cooldownTimer_funpow_frame:
  "email ((cooldownTimer ^^ n) st) = email st
   \<and> isLoading ((cooldownTimer ^^ n) st) = isLoading st
   \<and> verificationCode ((cooldownTimer ^^ n) st) = verificationCode st
   \<and> error ((cooldownTimer ^^ n) st) = error st"
  by (induction n) (auto simp: cooldownTimer_def)

lemma handleResendCode_success:
  assumes "\<not> resendCooldown st > 0" and "resend (email st) = Resolves None"
  shows "handleResendCode resend st =
           (st\<lparr>isLoading := False, error := None, resendCooldown := 60\<rparr>,
            [ResendVerificationEmail (email st), code_sent_alert])"
  using assms by (simp add: handleResendCode_def Let_def)

lemma handleResendCode_failure:
  assumes "\<not> resendCooldown st > 0" and "thrown (resend (email st)) = Some err"
  shows "handleResendCode resend st =
           (st\<lparr>isLoading := False, error := Some (resend_error_text err)\<rparr>,
            [ResendVerificationEmail (email st)])"
  using assms by (simp add: handleResendCode_def resend_catch_def Let_def)

text \<open>The cooldown stays between 0 and 60 under every operation of the screen.\<close>

lemma resendCooldown_range:
  assumes "0 \<le> resendCooldown st \<and> resendCooldown st \<le> 60"
  shows "0 \<le> resendCooldown (cooldownTimer st) \<and> resendCooldown (cooldownTimer st) \<le> 60"
    and "0 \<le> resendCooldown (fst (handleResendCode resend st))
         \<and> resendCooldown (fst (handleResendCode resend st)) \<le> 60"
    and "resendCooldown (fst (handleVerify verifyOTP st)) = resendCooldown st"
    and "resendCooldown (fst (handleCodeChange d i st)) = resendCooldown st"
  using assms
  by (auto simp: cooldownTimer_def handleResendCode_def resend_catch_def handleVerify_def
      verify_catch_def handleCodeChange_def Let_def split: option.splits outcome.splits)

text \<open>
  C6. A resend issued with no cooldown running: if the call succeeds, the cooldown is
  60 afterwards; after \<open>n \<le> 60\<close> timer steps it is \<open>60 - n\<close>; before the 60th step
  the handler does nothing; after the 60th step the cooldown is 0 and a press on the
  resend control calls the provider again. If the call fails (returns an error or
  throws), the cooldown is still 0 and the error text is set.
\<close>

theorem resend_cooldown_cycle:
  assumes "resendCooldown st = 0"
  shows
    "(resend (email st) = Resolves None \<longrightarrow>
        resendCooldown (fst (handleResendCode resend st)) = 60
        \<and> (\<forall>n\<le>60. resendCooldown ((cooldownTimer ^^ n) (fst (handleResendCode resend st)))
                      = 60 - int n)
        \<and> (\<forall>n<60. handleResendCode resend' ((cooldownTimer ^^ n) (fst (handleResendCode resend st)))
                      = ((cooldownTimer ^^ n) (fst (handleResendCode resend st)), []))
        \<and> resendCooldown ((cooldownTimer ^^ 60) (fst (handleResendCode resend st))) = 0
        \<and> (\<exists>rest. snd (resendButton_onPress resend'
                      ((cooldownTimer ^^ 60) (fst (handleResendCode resend st))))
                    = ResendVerificationEmail (email st) # rest))
     \<and> (\<forall>err. thrown (resend (email st)) = Some err \<longrightarrow>
          resendCooldown (fst (handleResendCode resend st)) = 0
          \<and> error (fst (handleResendCode resend st)) = Some (resend_error_text err))"
proof (intro conjI impI allI)
  assume ok: "resend (email st) = Resolves None"
  let ?st' = "fst (handleResendCode resend st)"
  from assms ok have st': "?st' = st\<lparr>isLoading := False, error := None, resendCooldown := 60\<rparr>"
    by (simp add: handleResendCode_success)
  then show "resendCooldown ?st' = 60" by simp
  have ticks: "resendCooldown ((cooldownTimer ^^ n) ?st') = max 0 (60 - int n)" for n
    using cooldownTimer_funpow [of ?st' n] st' by simp
  show "resendCooldown ((cooldownTimer ^^ n) ?st') = 60 - int n" if "n \<le> 60" for n
    using ticks [of n] that by simp
  show "handleResendCode resend' ((cooldownTimer ^^ n) ?st') = ((cooldownTimer ^^ n) ?st', [])"
    if "n < 60" for n
    using ticks [of n] that by (simp add: handleResendCode_def)
  show zero: "resendCooldown ((cooldownTimer ^^ 60) ?st') = 0"
    using ticks [of 60] by simp
  have idle: "isLoading ((cooldownTimer ^^ 60) ?st') = False"
    and addr: "email ((cooldownTimer ^^ 60) ?st') = email st"
    using cooldownTimer_funpow_frame [of 60 ?st'] st' by simp_all
  show "\<exists>rest. snd (resendButton_onPress resend' ((cooldownTimer ^^ 60) ?st'))
          = ResendVerificationEmail (email st) # rest"
    using zero idle addr
    by (simp add: resendButton_onPress_def handleResendCode_def Let_def split: option.split)
next
  fix err assume "thrown (resend (email st)) = Some err"
  with assms have "handleResendCode resend st =
      (st\<lparr>isLoading := False, error := Some (resend_error_text err)\<rparr>,
       [ResendVerificationEmail (email st)])"
    by (simp add: handleResendCode_failure)
  with assms show "resendCooldown (fst (handleResendCode resend st)) = 0"
    and "error (fst (handleResendCode resend st)) = Some (resend_error_text err)"
    by simp_all
qed

theorem resend_cooldown_cycle_witness:
  "resendCooldown (screen_with_code [[], [], [], [], [], []]) = 0
   \<and> resendCooldown (fst (handleResendCode (\<lambda>_. Resolves None)
         (screen_with_code [[], [], [], [], [], []]))) = 60
   \<and> resendCooldown ((cooldownTimer ^^ 60) (fst (handleResendCode (\<lambda>_. Resolves None)
         (screen_with_code [[], [], [], [], [], []])))) = 0
   \<and> thrown ((\<lambda>_. Resolves (Some network_error)) (email (screen_with_code [[], [], [], [], [], []])))
       = Some network_error
   \<and> resendCooldown (fst (handleResendCode (\<lambda>_. Resolves (Some network_error))
         (screen_with_code [[], [], [], [], [], []]))) = 0"
  using resend_cooldown_cycle
    [of "screen_with_code [[], [], [], [], [], []]" "\<lambda>_. Resolves None"]
    resend_cooldown_cycle
    [of "screen_with_code [[], [], [], [], [], []]" "\<lambda>_. Resolves (Some network_error)"]
  by (simp add: screen_with_code_def initial_verify_state_def)

section \<open>Account deletion: results\<close>

text \<open>
  C8. When \<^verbatim>\<open>getUser\<close> yields no user, the confirmed deletion asks for the user, shows
  the error alert carrying "User not authenticated", and resets its busy flag; it
  deletes neither the profile nor the auth identity, does not sign out and does not
  navigate.
\<close>

theorem confirmDeleteAccount_no_user:
  assumes "getUser b = Resolves None"
  shows "confirmDeleteAccount b st =
           (st\<lparr>isDeletingAccount := False\<rparr>,
            [GetUser,
             Alert ''Error''
               (''Failed to delete account. Please try again or contact support.'' @
                [CHR 0x0A, CHR 0x0A] @ ''Error: User not authenticated'') []])
         \<and> filter destructive (snd (confirmDeleteAccount b st)) = []"
  using assms
  by (simp add: confirmDeleteAccount_def deleteAccount_try_def delete_failed_alert_def
      not_authenticated_def)

theorem confirmDeleteAccount_no_user_witness:
  "getUser (working_backend\<lparr>getUser := Resolves None\<rparr>) = Resolves None
   \<and> snd (confirmDeleteAccount (working_backend\<lparr>getUser := Resolves None\<rparr>)
        \<lparr>isSigningOut = False, isDeletingAccount = False\<rparr>)
      = [GetUser,
         Alert ''Error''
           (''Failed to delete account. Please try again or contact support.'' @
            [CHR 0x0A, CHR 0x0A] @ ''Error: User not authenticated'') []]"
  using confirmDeleteAccount_no_user
    [of "working_backend\<lparr>getUser := Resolves None\<rparr>"
        "\<lparr>isSigningOut = False, isDeletingAccount = False\<rparr>"]
  by simp

text \<open>
  A failure of fetching the user, of deleting the profile or of deleting the auth
  identity, and a rejected sign-out call, end the sequence there: the trace holds the
  calls made so far and then the error alert, with no further call.
\<close>

lemma confirmDeleteAccount_aborts:
  "(getUser b = Rejects err \<longrightarrow>
      snd (confirmDeleteAccount b st) = [GetUser, delete_failed_alert err])
   \<and> (getUser b = Resolves (Some u) \<and> thrown (deleteProfile b (user_id u)) = Some err \<longrightarrow>
      snd (confirmDeleteAccount b st)
        = [GetUser, DeleteProfile (user_id u), delete_failed_alert err])
   \<and> (getUser b = Resolves (Some u) \<and> thrown (deleteProfile b (user_id u)) = None
        \<and> thrown (deleteUser b (user_id u)) = Some err \<longrightarrow>
      snd (confirmDeleteAccount b st)
        = [GetUser, DeleteProfile (user_id u), DeleteUser (user_id u), delete_failed_alert err])
   \<and> (getUser b = Resolves (Some u) \<and> thrown (deleteProfile b (user_id u)) = None
        \<and> thrown (deleteUser b (user_id u)) = None \<and> signOut b = Rejects err \<longrightarrow>
      snd (confirmDeleteAccount b st)
        = [GetUser, DeleteProfile (user_id u), DeleteUser (user_id u), SignOut,
           delete_failed_alert err])"
  by (simp add: confirmDeleteAccount_def deleteAccount_try_def)

text \<open>
  C9. A failure reported at any step of the deletion sequence should abort the remaining
  steps and surface the error alert. When every earlier step succeeds and the sign-out
  call resolves to an error, the handler still navigates to sign-in and shows no alert:
  the value \<^verbatim>\<open>signOut()\<close> resolves to is never looked at.
\<close>

theorem confirmDeleteAccount_signOut_error_ignored:
  "thrown (signOut (working_backend\<lparr>signOut := Resolves (Some network_error)\<rparr>))
     = Some network_error
   \<and> confirmDeleteAccount (working_backend\<lparr>signOut := Resolves (Some network_error)\<rparr>)
        \<lparr>isSigningOut = False, isDeletingAccount = False\<rparr>
     = (\<lparr>isSigningOut = False, isDeletingAccount = False\<rparr>,
        [GetUser, DeleteProfile ''u1'', DeleteUser ''u1'', SignOut,
         RouterReplace ''/auth/sign-in''])"
  by (simp add: confirmDeleteAccount_def deleteAccount_try_def working_backend_def
      sample_user_def)

end
